theory Spec2Isabelle
  imports Main
begin

section \<open>Python 2 values used by the profile-image views\<close>

text \<open>
  The code is Python 2. A text value is either a byte string (\<open>str\<close>) or a
  \<open>unicode\<close> object, given here by its code points. The built-in \<open>str(x)\<close>
  returns a byte string unchanged and encodes a \<open>unicode\<close> object with the ASCII
  codec, which raises \<open>UnicodeEncodeError\<close> on a code point above 127.
\<close>

datatype py_text = Str string | Unicode "nat list"

datatype exn =
    InvalidProfileImage string
  | UnicodeEncodeError
  | IndexError
  | IOError
  | JSONDecodeError
  | AttributeError

definition py_str :: "py_text \<Rightarrow> exn + string" where
  "py_str x =
     (case x of
        Str s \<Rightarrow> Inr s
      | Unicode cs \<Rightarrow>
          if list_all (\<lambda>c. c < 128) cs then Inr (map char_of cs)
          else Inl UnicodeEncodeError)"

text \<open>\<open>str.lower()\<close> on a byte string maps the ASCII letters A-Z to a-z.\<close>

definition lower_char :: "char \<Rightarrow> char" where
  "lower_char c =
     (if 65 \<le> (of_char c :: nat) \<and> (of_char c :: nat) \<le> 90
      then char_of ((of_char c :: nat) + 32) else c)"

definition lower :: "string \<Rightarrow> string" where
  "lower s = map lower_char s"

definition endswith :: "string \<Rightarrow> string \<Rightarrow> bool" where
  "endswith s suffix =
     (length suffix \<le> length s \<and> drop (length s - length suffix) s = suffix)"

text \<open>\<open>s.encode('hex')\<close>: two lower-case hexadecimal digits per byte.\<close>

definition hexdigit :: "nat \<Rightarrow> char" where
  "hexdigit d = ''0123456789abcdef'' ! d"

definition encode_hex :: "string \<Rightarrow> string" where
  "encode_hex s =
     concat (map (\<lambda>c. [hexdigit ((of_char c :: nat) div 16),
                         hexdigit ((of_char c :: nat) mod 16)]) s)"

section \<open>Validation of an uploaded profile image\<close>

definition PROFILE_IMAGE_MAX_BYTES :: int where
  "PROFILE_IMAGE_MAX_BYTES = 1024 * 1024"

definition PROFILE_IMAGE_MIN_BYTES :: int where
  "PROFILE_IMAGE_MIN_BYTES = 100"

definition DEV_MSG_FILE_TOO_LARGE :: string where
  "DEV_MSG_FILE_TOO_LARGE = ''Maximum file size exceeded.''"

definition DEV_MSG_FILE_TOO_SMALL :: string where
  "DEV_MSG_FILE_TOO_SMALL = ''Minimum file size not met.''"

definition DEV_MSG_FILE_BAD_TYPE :: string where
  "DEV_MSG_FILE_BAD_TYPE = ''Unsupported file type.''"

definition DEV_MSG_FILE_BAD_EXT :: string where
  "DEV_MSG_FILE_BAD_EXT = ''File extension does not match data.''"

definition DEV_MSG_FILE_BAD_MIMETYPE :: string where
  "DEV_MSG_FILE_BAD_MIMETYPE = ''Content-Type header does not match data.''"

text \<open>
  The uploaded file as the view receives it: its name, its size attribute, the
  Content-Type of its multipart part, and its bytes. The name is a text value: the upload
  parser of the web framework hands file names over as \<open>unicode\<close> objects, and the
  source converts the name with \<open>str\<close> before it lower-cases it. \<open>read(n)\<close>
  returns the first \<open>n\<close> bytes (fewer when the file is shorter): the upload is handed
  over positioned at its start, and validation rewinds it before it returns.
\<close>

record uploaded_file =
  name :: py_text
  size_bytes :: int
  content_type :: string
  contents :: string

definition read :: "uploaded_file \<Rightarrow> nat \<Rightarrow> string" where
  "read image_file n = take n (contents image_file)"

record image_type =
  extension :: "string list"
  mimetypes :: "string list"
  magic :: "string list"

text \<open>
  The table \<open>image_types\<close>, a dictionary in the source, as the list of its items in the
  order they are written. Iterating over the dictionary yields its keys in an order the
  language does not fix; \<open>matching_at_most_one\<close> below shows that no file name matches
  two entries, so the order has no influence on the result.
\<close>

definition image_types :: "(string \<times> image_type) list" where
  "image_types =
     [(''jpeg'', \<lparr>extension = [''.jpeg'', ''.jpg''],
                  mimetypes = [''image/jpeg'', ''image/pjpeg''],
                  magic = [''ffd8'']\<rparr>),
      (''png'', \<lparr>extension = [''.png''],
                 mimetypes = [''image/png''],
                 magic = [''89504e470d0a1a0a'']\<rparr>),
      (''gif'', \<lparr>extension = [''.gif''],
                 mimetypes = [''image/gif''],
                 magic = [''474946383961'', ''474946383761'']\<rparr>)]"

text \<open>
  \<open>[ft for ft in image_types if any(filename.endswith(ext) for ext in
  image_types[ft]['extension'])]\<close>, each key kept together with the entry that
  \<open>image_types[ft]\<close> looks up.
\<close>

definition matching_types :: "string \<Rightarrow> (string \<times> image_type) list" where
  "matching_types filename =
     filter (\<lambda>ft. list_ex (\<lambda>ext. endswith filename ext) (extension (snd ft))) image_types"

definition validate_profile_image :: "uploaded_file \<Rightarrow> string \<Rightarrow> exn + string" where
  "validate_profile_image image_file ctype =
     (if size_bytes image_file > PROFILE_IMAGE_MAX_BYTES
        then Inl (InvalidProfileImage DEV_MSG_FILE_TOO_LARGE)
      else if size_bytes image_file < PROFILE_IMAGE_MIN_BYTES
        then Inl (InvalidProfileImage DEV_MSG_FILE_TOO_SMALL)
      else
        (case py_str (name image_file) of
           Inl e \<Rightarrow> Inl e
         | Inr s \<Rightarrow>
            (case matching_types (lower s) of
               [] \<Rightarrow> Inl (InvalidProfileImage DEV_MSG_FILE_BAD_TYPE)
             | filetype # _ \<Rightarrow>
                 if ctype \<notin> set (mimetypes (snd filetype))
                   then Inl (InvalidProfileImage DEV_MSG_FILE_BAD_MIMETYPE)
                 else
                   (case magic (snd filetype) of
                      [] \<Rightarrow> Inl IndexError
                    | h # _ \<Rightarrow>
                        if encode_hex (read image_file (length h div 2))
                             \<notin> set (magic (snd filetype))
                          then Inl (InvalidProfileImage DEV_MSG_FILE_BAD_EXT)
                        else Inr (fst filetype)))))"

text \<open>
  The two table checks on the file itself, in the words of the claims: the file name ends
  with one of the type's extensions, and the file's leading bytes hex-encode to one of the
  type's magic strings.
\<close>

definition extension_matches :: "string \<Rightarrow> image_type \<Rightarrow> bool" where
  "extension_matches filename t = list_ex (\<lambda>ext. endswith filename ext) (extension t)"

definition magic_matches :: "uploaded_file \<Rightarrow> image_type \<Rightarrow> bool" where
  "magic_matches image_file t =
     list_ex (\<lambda>m. encode_hex (read image_file (length m div 2)) = m) (magic t)"

section \<open>Scaling and storing the thumbnails\<close>

text \<open>
  An image object of the imaging library: its size, its mode ('RGB', 'L', 'P' for a palette
  image, ...) and a description of its picture, which records the operations that produced
  it. \<open>crop\<close> returns the region of the box \<open>(left, upper, right, lower)\<close>, of size
  \<open>(right - left, lower - upper)\<close>, in the mode of the image.
\<close>

datatype picture =
    Opened string
  | Cropped picture int int int int
  | Resized picture int int

primrec source :: "picture \<Rightarrow> string" where
  "source (Opened d) = d"
| "source (Cropped p x0 y0 x1 y1) = source p"
| "source (Resized p w h) = source p"

record image =
  width :: int
  height :: int
  mode :: string
  pixels :: picture

definition crop :: "image \<Rightarrow> int \<times> int \<times> int \<times> int \<Rightarrow> image" where
  "crop image_obj box =
     (case box of (x0, y0, x1, y1) \<Rightarrow>
        \<lparr>width = x1 - x0, height = y1 - y0, mode = mode image_obj,
         pixels = Cropped (pixels image_obj) x0 y0 x1 y1\<rparr>)"

text \<open>A content file holding the JPEG encoding of an image.\<close>

datatype content_file = Jpeg image

type_synonym storage = "string \<rightharpoonup> content_file"

text \<open>
  The library functions the views call, as parameters:
  \<^item> the hex digest of MD5;
  \<^item> what \<open>Image.open\<close> reads from a file's bytes, the size and the mode of the picture,
    \<open>None\<close> when it cannot identify the bytes as an image and raises \<open>IOError\<close>;
  \<^item> whether the pixel data of the file can be decoded: \<open>Image.open\<close> reads the header
    only, the pixels are loaded by the first operation that needs them, and loading raises
    \<open>IOError\<close> for a file that is truncated or damaged;
  \<^item> the modes that the JPEG writer accepts: \<open>save\<close> with \<open>format='JPEG'\<close> raises
    \<open>IOError\<close> for an image in any other mode, and the source converts no mode;
  \<^item> the name that the storage backend picks instead of one that is taken.
\<close>

record libraries =
  md5_hexdigest :: "string \<Rightarrow> string"
  image_header :: "string \<Rightarrow> (int \<times> int \<times> string) option"
  image_loads :: "string \<Rightarrow> bool"
  jpeg_modes :: "string list"
  alternative_name :: "storage \<Rightarrow> string \<Rightarrow> string"

definition Image_open :: "libraries \<Rightarrow> uploaded_file \<Rightarrow> exn + image" where
  "Image_open lib image_file =
     (case image_header lib (contents image_file) of
        None \<Rightarrow> Inl IOError
      | Some (w, h, m) \<Rightarrow>
          Inr \<lparr>width = w, height = h, mode = m, pixels = Opened (contents image_file)\<rparr>)"

text \<open>
  \<open>resize\<close> loads the pixels, which raises \<open>IOError\<close> when they cannot be decoded,
  and returns a picture of the requested size in the mode of the image. (A version of the
  library whose \<open>crop\<close> loads the pixels raises the same error one call earlier, also
  before anything is stored.)
\<close>

definition resize :: "libraries \<Rightarrow> image \<Rightarrow> int \<times> int \<Rightarrow> exn + image" where
  "resize lib image_obj sz =
     (case sz of (w, h) \<Rightarrow>
        if image_loads lib (source (pixels image_obj))
        then Inr \<lparr>width = w, height = h, mode = mode image_obj,
                  pixels = Resized (pixels image_obj) w h\<rparr>
        else Inl IOError)"

text \<open>\<open>scaled.save(string_io, format='JPEG')\<close> and the content file of what it wrote.\<close>

definition save_jpeg :: "libraries \<Rightarrow> image \<Rightarrow> exn + content_file" where
  "save_jpeg lib image_obj =
     (if mode image_obj \<in> set (jpeg_modes lib) then Inr (Jpeg image_obj) else Inl IOError)"

definition get_scaled_image_file :: "libraries \<Rightarrow> image \<Rightarrow> int \<Rightarrow> exn + content_file" where
  "get_scaled_image_file lib image_obj side =
     (case resize lib image_obj (side, side) of
        Inl e \<Rightarrow> Inl e
      | Inr scaled \<Rightarrow> save_jpeg lib scaled)"

text \<open>
  What a successful \<open>get_scaled_image_file\<close> returns, stated on its own: the JPEG of the
  image scaled to \<open>side\<close> by \<open>side\<close> pixels.
\<close>

definition thumbnail :: "image \<Rightarrow> int \<Rightarrow> content_file" where
  "thumbnail image_obj side =
     Jpeg \<lparr>width = side, height = side, mode = mode image_obj,
           pixels = Resized (pixels image_obj) side side\<rparr>"

text \<open>The storage backend: a file system, as a map from names to contents.\<close>

definition storage_exists :: "storage \<Rightarrow> string \<Rightarrow> bool" where
  "storage_exists st n = (st n \<noteq> None)"

definition storage_delete :: "storage \<Rightarrow> string \<Rightarrow> storage" where
  "storage_delete st n = st(n := None)"

text \<open>
  \<open>save\<close> writes under the requested name when it is free and under the backend's
  alternative otherwise, and returns the name it wrote.
\<close>

definition storage_save ::
  "libraries \<Rightarrow> storage \<Rightarrow> string \<Rightarrow> content_file \<Rightarrow> string \<times> storage" where
  "storage_save lib st n c =
     (let n' = (if storage_exists st n then alternative_name lib st n else n)
      in (n', st(n' \<mapsto> c)))"

text \<open>\<open>str(n)\<close> for an integer: its decimal digits, with a sign when negative.\<close>

definition digit_char :: "nat \<Rightarrow> char" where
  "digit_char d = ''0123456789'' ! d"

function str_nat :: "nat \<Rightarrow> string" where
  "str_nat n = (if n < 10 then [digit_char n] else str_nat (n div 10) @ [digit_char (n mod 10)])"
  by pat_completeness auto
termination
  by (relation "measure (\<lambda>n. n)") auto

declare str_nat.simps [simp del]

definition str_int :: "int \<Rightarrow> string" where
  "str_int i = (if i < 0 then CHR ''-'' # str_nat (nat (- i)) else str_nat (nat i))"

definition name_profile_image :: "libraries \<Rightarrow> string \<Rightarrow> int \<Rightarrow> string" where
  "name_profile_image lib uname side =
     md5_hexdigest lib uname @ ''_profile_'' @ str_int side @ ''.jpeg''"

definition store_profile_image ::
  "libraries \<Rightarrow> content_file \<Rightarrow> int \<Rightarrow> string \<Rightarrow> storage \<Rightarrow> string \<times> storage" where
  "store_profile_image lib image_file side uname st =
     (let dest_name = name_profile_image lib uname side;
          st1 = (if storage_exists st dest_name then storage_delete st dest_name else st)
      in storage_save lib st1 dest_name image_file)"

text \<open>The first step of \<open>generate_profile_images\<close>: the center crop, when needed.\<close>

definition center_crop :: "image \<Rightarrow> image" where
  "center_crop image_obj =
     (let w = width image_obj; h = height image_obj in
      if w \<noteq> h then
        (let side = (if w < h then w else h)
         in crop image_obj ((w - side) div 2, (h - side) div 2, (w + side) div 2, (h + side) div 2))
      else image_obj)"

text \<open>
  The loop \<open>for side in [30, 50, 120, 500]\<close>: an exception ends it, and what was stored
  before stays stored.
\<close>

fun store_scaled ::
  "libraries \<Rightarrow> image \<Rightarrow> string \<Rightarrow> int list \<Rightarrow> storage \<Rightarrow> (exn + unit) \<times> storage" where
  "store_scaled lib image_obj uname [] st = (Inr (), st)"
| "store_scaled lib image_obj uname (side # sides) st =
     (case get_scaled_image_file lib image_obj side of
        Inl e \<Rightarrow> (Inl e, st)
      | Inr scaled_image_file \<Rightarrow>
          store_scaled lib image_obj uname sides
            (snd (store_profile_image lib scaled_image_file side uname st)))"

definition generate_profile_images ::
  "libraries \<Rightarrow> uploaded_file \<Rightarrow> string \<Rightarrow> storage \<Rightarrow> (exn + unit) \<times> storage" where
  "generate_profile_images lib image_file uname st =
     (case Image_open lib image_file of
        Inl e \<Rightarrow> (Inl e, st)
      | Inr image_obj \<Rightarrow> store_scaled lib (center_crop image_obj) uname [30, 50, 120, 500] st)"

section \<open>The upload view\<close>

datatype pyval =
    PyNone
  | PyBool bool
  | PyInt int
  | PyStr string
  | PyList "pyval list"
  | PyDict "(string \<times> pyval) list"

record user =
  username :: string
  is_staff :: bool

record request =
  user :: user
  FILES :: "string \<rightharpoonup> uploaded_file"

record response =
  data :: pyval
  status :: int

definition HTTP_200_OK :: int where "HTTP_200_OK = 200"
definition HTTP_400_BAD_REQUEST :: int where "HTTP_400_BAD_REQUEST = 400"
definition HTTP_403_FORBIDDEN :: int where "HTTP_403_FORBIDDEN = 403"

text \<open>
  \<open>ProfileImageUploadView.post\<close>, for a request that has passed authentication. The
  result is the response, or the exception that leaves the view, together with the
  storage after the call.
\<close>

definition post ::
  "libraries \<Rightarrow> request \<Rightarrow> string \<Rightarrow> storage \<Rightarrow> (exn + response) \<times> storage" where
  "post lib req uname st =
     (if username (user req) \<noteq> uname \<and> \<not> is_staff (user req)
        then (Inr \<lparr>data = PyNone, status = HTTP_403_FORBIDDEN\<rparr>, st)
      else
        (case FILES req ''file'' of
           None \<Rightarrow> (Inr \<lparr>data = PyNone, status = HTTP_400_BAD_REQUEST\<rparr>, st)
         | Some uploaded_file \<Rightarrow>
            (case validate_profile_image uploaded_file (content_type uploaded_file) of
               Inl (InvalidProfileImage message) \<Rightarrow>
                 (Inr \<lparr>data = PyDict [(''developer_message'', PyStr message),
                                       (''user_message'', PyNone)],
                       status = HTTP_400_BAD_REQUEST\<rparr>, st)
             | Inl e \<Rightarrow> (Inl e, st)
             | Inr _ \<Rightarrow>
                (case generate_profile_images lib uploaded_file uname st of
                   (Inl e, st') \<Rightarrow> (Inl e, st')
                 | (Inr _, st') \<Rightarrow>
                     (Inr \<lparr>data = PyDict [(''status'', PyStr ''success'')],
                           status = HTTP_200_OK\<rparr>, st')))))"

section \<open>The e-commerce API client\<close>

text \<open>
  \<open>EommerceAPI.create_order\<close> from the answer of \<open>requests.post\<close> on: building and
  sending the request (the JWT header, the JSON payload, the timeout) is the work of the
  libraries, and their answer is the input here. Of the answer the function uses the
  status code and what \<open>response.json()\<close> decodes, \<open>None\<close> when the body is not valid
  JSON (where \<open>json()\<close> raises \<open>JSONDecodeError\<close>). The decoded body is a Python
  value; \<open>data.get\<close> exists on a dictionary only. A log record keeps the message and
  its arguments, as the logging library does.
\<close>

record api_response =
  status_code :: int
  json :: "pyval option"

type_synonym log_record = "string \<times> (string \<times> pyval) list"

definition dict_get :: "(string \<times> pyval) list \<Rightarrow> string \<Rightarrow> pyval" where
  "dict_get items k = (case map_of items k of None \<Rightarrow> PyNone | Some v \<Rightarrow> v)"

definition create_order ::
  "api_response \<Rightarrow> log_record list \<Rightarrow> (exn + pyval) \<times> log_record list" where
  "create_order resp log =
     (case json resp of
        None \<Rightarrow>
          (Inl JSONDecodeError, log @ [(''E-Commerce API response is not valid JSON.'', [])])
      | Some d \<Rightarrow>
          if status_code resp = HTTP_200_OK then (Inr d, log)
          else
            (case d of
               PyDict items \<Rightarrow>
                 (Inr PyNone,
                  log @ [(''Response from E-Commerce API was invalid: (%(status)d) - %(msg)s'',
                          [(''status'', PyInt (status_code resp)),
                           (''msg'', dict_get items ''user_message'')])])
             | _ \<Rightarrow> (Inl AttributeError, log)))"

section \<open>The stages of the upload pipeline\<close>

text \<open>
  The stages that the specification names, each on its own: the size check, and the
  file-type sniffing (extension, then Content-Type, then magic bytes). They are compared
  with \<open>validate_profile_image\<close> below.
\<close>

definition check_file_size :: "uploaded_file \<Rightarrow> exn + unit" where
  "check_file_size image_file =
     (if size_bytes image_file > PROFILE_IMAGE_MAX_BYTES
        then Inl (InvalidProfileImage DEV_MSG_FILE_TOO_LARGE)
      else if size_bytes image_file < PROFILE_IMAGE_MIN_BYTES
        then Inl (InvalidProfileImage DEV_MSG_FILE_TOO_SMALL)
      else Inr ())"

definition sniff_file_type :: "uploaded_file \<Rightarrow> string \<Rightarrow> exn + string" where
  "sniff_file_type image_file ctype =
     (case py_str (name image_file) of
        Inl e \<Rightarrow> Inl e
      | Inr s \<Rightarrow>
         (case find (\<lambda>ft. extension_matches (lower s) (snd ft)) image_types of
            None \<Rightarrow> Inl (InvalidProfileImage DEV_MSG_FILE_BAD_TYPE)
          | Some ft \<Rightarrow>
              if ctype \<notin> set (mimetypes (snd ft))
                then Inl (InvalidProfileImage DEV_MSG_FILE_BAD_MIMETYPE)
              else if \<not> magic_matches image_file (snd ft)
                then Inl (InvalidProfileImage DEV_MSG_FILE_BAD_EXT)
              else Inr (fst ft)))"

text \<open>
  The order as the specification words it: file-type sniffing first, then the size check.
\<close>

definition validate_sniffing_first :: "uploaded_file \<Rightarrow> string \<Rightarrow> exn + string" where
  "validate_sniffing_first image_file ctype =
     (case sniff_file_type image_file ctype of
        Inl e \<Rightarrow> Inl e
      | Inr t \<Rightarrow> (case check_file_size image_file of Inl e \<Rightarrow> Inl e | Inr _ \<Rightarrow> Inr t))"

section \<open>Example inputs\<close>

text \<open>
  A PNG file of 218 bytes: a picture of 8 by 6 pixels in mode 'RGB', with its header, image
  data and end chunks.
\<close>

definition png_bytes :: string where
  "png_bytes =
     [CHR 0x89, CHR 0x50, CHR 0x4e, CHR 0x47, CHR 0x0d, CHR 0x0a, CHR 0x1a, CHR 0x0a,
      CHR 0x00, CHR 0x00, CHR 0x00, CHR 0x0d, CHR 0x49, CHR 0x48, CHR 0x44, CHR 0x52,
      CHR 0x00, CHR 0x00, CHR 0x00, CHR 0x08, CHR 0x00, CHR 0x00, CHR 0x00, CHR 0x06,
      CHR 0x08, CHR 0x02, CHR 0x00, CHR 0x00, CHR 0x00, CHR 0x71, CHR 0x67, CHR 0x48,
      CHR 0xac, CHR 0x00, CHR 0x00, CHR 0x00, CHR 0xa1, CHR 0x49, CHR 0x44, CHR 0x41,
      CHR 0x54, CHR 0x78, CHR 0xda, CHR 0x01, CHR 0x96, CHR 0x00, CHR 0x69, CHR 0xff,
      CHR 0x00, CHR 0x00, CHR 0x00, CHR 0xc9, CHR 0x25, CHR 0x35, CHR 0xc9, CHR 0x4a,
      CHR 0xd4, CHR 0xc9, CHR 0x6f, CHR 0xdd, CHR 0xc9, CHR 0x94, CHR 0x50, CHR 0xc9,
      CHR 0xb9, CHR 0x2d, CHR 0xc9, CHR 0xde, CHR 0x74, CHR 0xc9, CHR 0x03, CHR 0x25,
      CHR 0xc9, CHR 0x00, CHR 0x0b, CHR 0x5b, CHR 0xc9, CHR 0x30, CHR 0x90, CHR 0xda,
      CHR 0x55, CHR 0x2f, CHR 0xeb, CHR 0x7a, CHR 0x38, CHR 0xfc, CHR 0x9f, CHR 0xab,
      CHR 0x0d, CHR 0xc4, CHR 0x88, CHR 0x1e, CHR 0xe9, CHR 0xcf, CHR 0x2f, CHR 0x0e,
      CHR 0x80, CHR 0x40, CHR 0x00, CHR 0x2c, CHR 0xb6, CHR 0xc9, CHR 0x51, CHR 0xeb,
      CHR 0xeb, CHR 0x76, CHR 0x8a, CHR 0x0d, CHR 0x9b, CHR 0x93, CHR 0x2f, CHR 0xc0,
      CHR 0x06, CHR 0x51, CHR 0xe5, CHR 0xe3, CHR 0x73, CHR 0x0a, CHR 0x2a, CHR 0x95,
      CHR 0x2f, CHR 0xdb, CHR 0xb7, CHR 0x00, CHR 0x63, CHR 0x11, CHR 0xc9, CHR 0x88,
      CHR 0x46, CHR 0xfc, CHR 0xad, CHR 0xe5, CHR 0x2f, CHR 0xd2, CHR 0xee, CHR 0x62,
      CHR 0xf7, CHR 0x61, CHR 0x95, CHR 0x1c, CHR 0x3e, CHR 0xc8, CHR 0x41, CHR 0x85,
      CHR 0xfb, CHR 0x66, CHR 0x36, CHR 0x2e, CHR 0x00, CHR 0xb0, CHR 0x6c, CHR 0xc9,
      CHR 0xd5, CHR 0xa1, CHR 0x0d, CHR 0xfa, CHR 0x40, CHR 0x51, CHR 0x1f, CHR 0x49,
      CHR 0x95, CHR 0x44, CHR 0xbc, CHR 0xd9, CHR 0x69, CHR 0x99, CHR 0x1d, CHR 0x8e,
      CHR 0xe0, CHR 0x61, CHR 0xb3, CHR 0x91, CHR 0xa5, CHR 0x00, CHR 0x13, CHR 0xc7,
      CHR 0xc9, CHR 0x38, CHR 0xfc, CHR 0x1e, CHR 0x5d, CHR 0x9b, CHR 0x73, CHR 0x82,
      CHR 0xa4, CHR 0xc8, CHR 0xa7, CHR 0x17, CHR 0x1d, CHR 0xcc, CHR 0xf4, CHR 0x72,
      CHR 0xf1, CHR 0x3b, CHR 0xc7, CHR 0x16, CHR 0xec, CHR 0x1c, CHR 0x42, CHR 0x15,
      CHR 0x49, CHR 0x55, CHR 0xd7, CHR 0xe1, CHR 0xe6, CHR 0xb3, CHR 0x00, CHR 0x00,
      CHR 0x00, CHR 0x00, CHR 0x49, CHR 0x45, CHR 0x4e, CHR 0x44, CHR 0xae, CHR 0x42,
      CHR 0x60, CHR 0x82]"

text \<open>
  A GIF file of 109 bytes: one pixel with a palette of two colours and a comment, which the
  imaging library opens in mode 'P'.
\<close>

definition gif_bytes :: string where
  "gif_bytes =
     [CHR 0x47, CHR 0x49, CHR 0x46, CHR 0x38, CHR 0x39, CHR 0x61, CHR 0x01, CHR 0x00,
      CHR 0x01, CHR 0x00, CHR 0x80, CHR 0x00, CHR 0x00, CHR 0xff, CHR 0xff, CHR 0xff,
      CHR 0x00, CHR 0x00, CHR 0x00, CHR 0x21, CHR 0xfe, CHR 0x46, CHR 0x70, CHR 0x72,
      CHR 0x6f, CHR 0x66, CHR 0x69, CHR 0x6c, CHR 0x65, CHR 0x20, CHR 0x69, CHR 0x6d,
      CHR 0x61, CHR 0x67, CHR 0x65, CHR 0x20, CHR 0x74, CHR 0x65, CHR 0x73, CHR 0x74,
      CHR 0x20, CHR 0x70, CHR 0x69, CHR 0x63, CHR 0x74, CHR 0x75, CHR 0x72, CHR 0x65,
      CHR 0x3a, CHR 0x20, CHR 0x6f, CHR 0x6e, CHR 0x65, CHR 0x20, CHR 0x77, CHR 0x68,
      CHR 0x69, CHR 0x74, CHR 0x65, CHR 0x20, CHR 0x70, CHR 0x69, CHR 0x78, CHR 0x65,
      CHR 0x6c, CHR 0x2c, CHR 0x20, CHR 0x77, CHR 0x72, CHR 0x69, CHR 0x74, CHR 0x74,
      CHR 0x65, CHR 0x6e, CHR 0x20, CHR 0x61, CHR 0x73, CHR 0x20, CHR 0x61, CHR 0x20,
      CHR 0x47, CHR 0x49, CHR 0x46, CHR 0x38, CHR 0x39, CHR 0x61, CHR 0x20, CHR 0x66,
      CHR 0x69, CHR 0x6c, CHR 0x65, CHR 0x2e, CHR 0x00, CHR 0x2c, CHR 0x00, CHR 0x00,
      CHR 0x00, CHR 0x00, CHR 0x01, CHR 0x00, CHR 0x01, CHR 0x00, CHR 0x00, CHR 0x02,
      CHR 0x02, CHR 0x44, CHR 0x01, CHR 0x00, CHR 0x3b]"

text \<open>One hundred bytes that carry the JPEG magic number and nothing else of an image.\<close>

definition junk_bytes :: string where
  "junk_bytes = [CHR 0xff, CHR 0xd8] @ replicate 98 (CHR 0x00)"

text \<open>
  Libraries for the examples: the digest is the MD5 of 'alice'; \<open>Image.open\<close> reads the
  two pictures above and identifies no image in any other bytes; the JPEG writer accepts
  the modes of its table, which has no palette mode; and the storage's alternative for a
  name that is taken appends '_1'.
\<close>

definition example_lib :: libraries where
  "example_lib =
     \<lparr>md5_hexdigest = (\<lambda>u. ''6384e2b2184bcbf58eccf10ca7a6563c''),
      image_header = (\<lambda>d. if d = png_bytes then Some (8, 6, ''RGB'')
                           else if d = gif_bytes then Some (1, 1, ''P'') else None),
      image_loads = (\<lambda>d. d = png_bytes \<or> d = gif_bytes),
      jpeg_modes = [''1'', ''L'', ''RGB'', ''RGBX'', ''CMYK'', ''YCbCr''],
      alternative_name = (\<lambda>st n. n @ ''_1'')\<rparr>"

definition example_upload :: uploaded_file where
  "example_upload =
     \<lparr>name = Str ''Photo.PNG'', size_bytes = 218, content_type = ''image/png'',
      contents = png_bytes\<rparr>"

definition gif_upload :: uploaded_file where
  "gif_upload =
     \<lparr>name = Str ''pixel.gif'', size_bytes = 109, content_type = ''image/gif'',
      contents = gif_bytes\<rparr>"

definition junk_upload :: uploaded_file where
  "junk_upload =
     \<lparr>name = Str ''photo.jpg'', size_bytes = 100, content_type = ''image/jpeg'',
      contents = junk_bytes\<rparr>"

definition tiny_bmp :: uploaded_file where
  "tiny_bmp =
     \<lparr>name = Str ''photo.bmp'', size_bytes = 99, content_type = ''image/bmp'',
      contents = ''BM'' @ replicate 97 (CHR 0x00)\<rparr>"

text \<open>
  Uploads whose names, the \<open>unicode\<close> objects \<open>u'caf\xe9.png'\<close> and
  \<open>u'caf\xe9.bmp'\<close>, have a letter outside ASCII.
\<close>

definition cafe_png :: uploaded_file where
  "cafe_png =
     \<lparr>name = Unicode [99, 97, 102, 233, 46, 112, 110, 103], size_bytes = 218,
      content_type = ''image/png'', contents = png_bytes\<rparr>"

definition cafe_bmp :: uploaded_file where
  "cafe_bmp =
     \<lparr>name = Unicode [99, 97, 102, 233, 46, 98, 109, 112], size_bytes = 100,
      content_type = ''image/bmp'', contents = ''BM'' @ replicate 98 (CHR 0x00)\<rparr>"

definition example_request :: "uploaded_file \<Rightarrow> request" where
  "example_request f =
     \<lparr>user = \<lparr>username = ''alice'', is_staff = False\<rparr>, FILES = [''file'' \<mapsto> f]\<rparr>"

section \<open>Facts about the table and the conversions\<close>

lemma py_str_error: "py_str x = Inl e \<Longrightarrow> e = UnicodeEncodeError"
  by (auto simp: py_str_def split: py_text.splits if_splits)

lemmas validate_consts =
  PROFILE_IMAGE_MAX_BYTES_def PROFILE_IMAGE_MIN_BYTES_def
  DEV_MSG_FILE_TOO_LARGE_def DEV_MSG_FILE_TOO_SMALL_def DEV_MSG_FILE_BAD_TYPE_def
  DEV_MSG_FILE_BAD_EXT_def DEV_MSG_FILE_BAD_MIMETYPE_def

subsection \<open>No file name matches two entries of the table\<close>

lemma endswith_rev: "endswith s e \<Longrightarrow> \<exists>q. rev s = rev e @ q"
proof -
  assume h: "endswith s e"
  have "s = take (length s - length e) s @ drop (length s - length e) s" by simp
  with h have "s = take (length s - length e) s @ e" by (simp add: endswith_def)
  then have "rev s = rev e @ rev (take (length s - length e) s)"
    by (metis rev_append)
  then show ?thesis by blast
qed

lemma extensions_exclusive:
  "endswith s ''.png'' \<Longrightarrow>
     \<not> endswith s ''.jpeg'' \<and> \<not> endswith s ''.jpg'' \<and> \<not> endswith s ''.gif''"
  "endswith s ''.gif'' \<Longrightarrow>
     \<not> endswith s ''.jpeg'' \<and> \<not> endswith s ''.jpg'' \<and> \<not> endswith s ''.png''"
  "endswith s ''.jpeg'' \<Longrightarrow> \<not> endswith s ''.png'' \<and> \<not> endswith s ''.gif''"
  "endswith s ''.jpg'' \<Longrightarrow> \<not> endswith s ''.png'' \<and> \<not> endswith s ''.gif''"
  by (auto dest!: endswith_rev)

lemma matching_unique:
  assumes "ft \<in> set image_types" and "extension_matches s (snd ft)"
  shows "matching_types s = [ft]"
proof -
  from assms(1) consider
      (jpeg) "ft = image_types ! 0" | (png) "ft = image_types ! 1" | (gif) "ft = image_types ! 2"
    by (auto simp: image_types_def)
  then show ?thesis
  proof cases
    case jpeg
    with assms(2) have "endswith s ''.jpeg'' \<or> endswith s ''.jpg''"
      by (simp add: image_types_def extension_matches_def)
    then have "\<not> endswith s ''.png''" "\<not> endswith s ''.gif''"
      using extensions_exclusive(3,4) [of s] by blast+
    with jpeg assms(2) show ?thesis
      by (simp add: matching_types_def image_types_def extension_matches_def)
  next
    case png
    with assms(2) have h: "endswith s ''.png''"
      by (simp add: image_types_def extension_matches_def)
    with png extensions_exclusive(1) [OF h] show ?thesis
      by (simp add: matching_types_def image_types_def)
  next
    case gif
    with assms(2) have h: "endswith s ''.gif''"
      by (simp add: image_types_def extension_matches_def)
    with gif extensions_exclusive(2) [OF h] show ?thesis
      by (simp add: matching_types_def image_types_def)
  qed
qed

lemma matching_none:
  "(matching_types s = []) = (\<forall>ft \<in> set image_types. \<not> extension_matches s (snd ft))"
  by (auto simp: matching_types_def extension_matches_def filter_empty_conv)

lemma matching_at_most_one: "length (matching_types s) \<le> 1"
proof (cases "matching_types s")
  case Nil
  then show ?thesis by simp
next
  case (Cons ft rest)
  then have "ft \<in> set (matching_types s)" by simp
  then have "ft \<in> set image_types" "extension_matches s (snd ft)"
    by (auto simp: matching_types_def extension_matches_def)
  then show ?thesis by (simp add: matching_unique)
qed

subsection \<open>The outcome of validation, case by case\<close>

lemma magic_check:
  "ft \<in> set image_types \<Longrightarrow>
     (case magic (snd ft) of
        [] \<Rightarrow> Inl IndexError
      | h # x \<Rightarrow>
          if encode_hex (read f (length h div 2)) \<notin> set (magic (snd ft))
          then Inl (InvalidProfileImage DEV_MSG_FILE_BAD_EXT) else Inr (fst ft))
     = (if magic_matches f (snd ft) then Inr (fst ft)
        else Inl (InvalidProfileImage DEV_MSG_FILE_BAD_EXT))"
  by (auto simp: image_types_def magic_matches_def)

lemma validate_matched:
  assumes "100 \<le> size_bytes f" "size_bytes f \<le> 1048576" "py_str (name f) = Inr s"
    and "ft \<in> set image_types" "extension_matches (lower s) (snd ft)"
  shows "validate_profile_image f ct =
     (if ct \<notin> set (mimetypes (snd ft)) then Inl (InvalidProfileImage DEV_MSG_FILE_BAD_MIMETYPE)
      else if magic_matches f (snd ft) then Inr (fst ft)
      else Inl (InvalidProfileImage DEV_MSG_FILE_BAD_EXT))"
  using assms magic_check [OF assms(4), of f]
  by (simp add: validate_profile_image_def PROFILE_IMAGE_MAX_BYTES_def
      PROFILE_IMAGE_MIN_BYTES_def matching_unique)

lemma validate_unmatched:
  assumes "100 \<le> size_bytes f" "size_bytes f \<le> 1048576" "py_str (name f) = Inr s"
    and "\<forall>ft \<in> set image_types. \<not> extension_matches (lower s) (snd ft)"
  shows "validate_profile_image f ct = Inl (InvalidProfileImage DEV_MSG_FILE_BAD_TYPE)"
  using assms matching_none [of "lower s"]
  by (simp add: validate_profile_image_def PROFILE_IMAGE_MAX_BYTES_def
      PROFILE_IMAGE_MIN_BYTES_def)

lemma validate_size_error:
  "\<not> (100 \<le> size_bytes f \<and> size_bytes f \<le> 1048576) \<Longrightarrow>
     validate_profile_image f ct = Inl (InvalidProfileImage DEV_MSG_FILE_TOO_LARGE)
   \<or> validate_profile_image f ct = Inl (InvalidProfileImage DEV_MSG_FILE_TOO_SMALL)"
  by (auto simp: validate_profile_image_def PROFILE_IMAGE_MAX_BYTES_def
      PROFILE_IMAGE_MIN_BYTES_def)

lemma validate_str_error:
  "100 \<le> size_bytes f \<Longrightarrow> size_bytes f \<le> 1048576 \<Longrightarrow> py_str (name f) = Inl e \<Longrightarrow>
     validate_profile_image f ct = Inl UnicodeEncodeError"
  by (auto simp: validate_profile_image_def PROFILE_IMAGE_MAX_BYTES_def
      PROFILE_IMAGE_MIN_BYTES_def dest: py_str_error)

lemma matching_same:
  "ft \<in> set image_types \<Longrightarrow> extension_matches s (snd ft) \<Longrightarrow>
   g \<in> set image_types \<Longrightarrow> extension_matches s (snd g) \<Longrightarrow> g = ft"
  using matching_unique [of ft s] matching_unique [of g s] by simp

lemma validate_outcome:
  "validate_profile_image f ct =
     (if size_bytes f > 1048576 then Inl (InvalidProfileImage DEV_MSG_FILE_TOO_LARGE)
      else if size_bytes f < 100 then Inl (InvalidProfileImage DEV_MSG_FILE_TOO_SMALL)
      else case py_str (name f) of
        Inl e \<Rightarrow> Inl UnicodeEncodeError
      | Inr s \<Rightarrow>
          if \<forall>ft \<in> set image_types. \<not> extension_matches (lower s) (snd ft)
            then Inl (InvalidProfileImage DEV_MSG_FILE_BAD_TYPE)
          else if \<exists>ft \<in> set image_types. extension_matches (lower s) (snd ft)
                     \<and> ct \<notin> set (mimetypes (snd ft))
            then Inl (InvalidProfileImage DEV_MSG_FILE_BAD_MIMETYPE)
          else if \<exists>ft \<in> set image_types. extension_matches (lower s) (snd ft)
                     \<and> \<not> magic_matches f (snd ft)
            then Inl (InvalidProfileImage DEV_MSG_FILE_BAD_EXT)
          else Inr (fst (hd (matching_types (lower s)))))"
proof (cases "100 \<le> size_bytes f \<and> size_bytes f \<le> 1048576")
  case False
  then show ?thesis
    by (auto simp: validate_profile_image_def PROFILE_IMAGE_MAX_BYTES_def
        PROFILE_IMAGE_MIN_BYTES_def)
next
  case range: True
  show ?thesis
  proof (cases "py_str (name f)")
    case (Inl e)
    with range show ?thesis by (simp add: validate_str_error)
  next
    case (Inr s)
    show ?thesis
    proof (cases "\<forall>ft \<in> set image_types. \<not> extension_matches (lower s) (snd ft)")
      case True
      with range Inr show ?thesis by (simp add: validate_unmatched)
    next
      case False
      then obtain ft where ft: "ft \<in> set image_types" "extension_matches (lower s) (snd ft)"
        by blast
      have u: "\<And>g. g \<in> set image_types \<Longrightarrow> extension_matches (lower s) (snd g) \<Longrightarrow> g = ft"
        using ft by (blast intro: matching_same)
      have m: "matching_types (lower s) = [ft]" using ft by (rule matching_unique)
      have v: "validate_profile_image f ct =
         (if ct \<notin> set (mimetypes (snd ft)) then Inl (InvalidProfileImage DEV_MSG_FILE_BAD_MIMETYPE)
          else if magic_matches f (snd ft) then Inr (fst ft)
          else Inl (InvalidProfileImage DEV_MSG_FILE_BAD_EXT))"
        using range Inr ft by (simp add: validate_matched)
      have a: "(\<exists>g \<in> set image_types. extension_matches (lower s) (snd g)
                   \<and> ct \<notin> set (mimetypes (snd g))) = (ct \<notin> set (mimetypes (snd ft)))"
        using ft u by blast
      have b: "(\<exists>g \<in> set image_types. extension_matches (lower s) (snd g)
                   \<and> \<not> magic_matches f (snd g)) = (\<not> magic_matches f (snd ft))"
        using ft u by blast
      have n: "(\<forall>g \<in> set image_types. \<not> extension_matches (lower s) (snd g)) = False"
        using False by simp
      from range Inr show ?thesis
        by (simp add: v a b m n)
    qed
  qed
qed

subsection \<open>What storing and generating leave in the storage\<close>

lemma str_int_sides:
  "str_int 30 = ''30'' \<and> str_int 50 = ''50'' \<and> str_int 120 = ''120'' \<and> str_int 500 = ''500''"
  by code_simp

lemma store_profile_image_result:
  "store_profile_image lib c side u st =
     (name_profile_image lib u side, st(name_profile_image lib u side \<mapsto> c))"
  by (simp add: store_profile_image_def storage_save_def storage_exists_def storage_delete_def
      Let_def)

lemma names_distinct:
  "distinct (map (name_profile_image lib u) [30, 50, 120, 500])"
  using str_int_sides by (simp add: name_profile_image_def)

lemma get_scaled_image_file_outcome:
  "get_scaled_image_file lib img side =
     (if image_loads lib (source (pixels img)) \<and> mode img \<in> set (jpeg_modes lib)
      then Inr (thumbnail img side) else Inl IOError)"
  by (simp add: get_scaled_image_file_def resize_def save_jpeg_def thumbnail_def)

lemma center_crop_keeps:
  "source (pixels (center_crop img)) = source (pixels img)"
  "mode (center_crop img) = mode img"
  by (simp_all add: center_crop_def crop_def Let_def)

lemma Image_open_source:
  "Image_open lib f = Inr img \<Longrightarrow> source (pixels img) = contents f"
  by (auto simp: Image_open_def split: option.splits)

lemma Image_open_error: "Image_open lib f = Inl e \<Longrightarrow> e = IOError"
  by (auto simp: Image_open_def split: option.splits)

lemma generate_outcome:
  "generate_profile_images lib f u st =
     (case Image_open lib f of
        Inl e \<Rightarrow> (Inl IOError, st)
      | Inr img \<Rightarrow>
          if image_loads lib (contents f) \<and> mode img \<in> set (jpeg_modes lib)
          then (Inr (),
                st(name_profile_image lib u 30 \<mapsto> thumbnail (center_crop img) 30,
                   name_profile_image lib u 50 \<mapsto> thumbnail (center_crop img) 50,
                   name_profile_image lib u 120 \<mapsto> thumbnail (center_crop img) 120,
                   name_profile_image lib u 500 \<mapsto> thumbnail (center_crop img) 500))
          else (Inl IOError, st))"
proof (cases "Image_open lib f")
  case (Inl e)
  then show ?thesis
    by (simp add: generate_profile_images_def Image_open_error)
next
  case (Inr img)
  then show ?thesis
    by (simp add: generate_profile_images_def get_scaled_image_file_outcome center_crop_keeps
        Image_open_source store_profile_image_result)
qed

lemma generate_error_unchanged:
  "generate_profile_images lib f u st = (Inl e, st') \<Longrightarrow> e = IOError \<and> st' = st"
  by (auto simp: generate_outcome split: sum.splits if_splits)

subsection \<open>Validation as the size check followed by the sniffing\<close>

lemma find_filter:
  "find P xs = (case filter P xs of [] \<Rightarrow> None | x # _ \<Rightarrow> Some x)"
  by (induction xs) auto

lemma sniff_file_type_outcome:
  "sniff_file_type f ct =
     (case py_str (name f) of
        Inl e \<Rightarrow> Inl e
      | Inr s \<Rightarrow>
         (case matching_types (lower s) of
            [] \<Rightarrow> Inl (InvalidProfileImage DEV_MSG_FILE_BAD_TYPE)
          | ft # _ \<Rightarrow>
              if ct \<notin> set (mimetypes (snd ft))
                then Inl (InvalidProfileImage DEV_MSG_FILE_BAD_MIMETYPE)
              else if \<not> magic_matches f (snd ft)
                then Inl (InvalidProfileImage DEV_MSG_FILE_BAD_EXT)
              else Inr (fst ft)))"
proof -
  have "\<And>s. find (\<lambda>ft. extension_matches (lower s) (snd ft)) image_types
           = (case matching_types (lower s) of [] \<Rightarrow> None | ft # _ \<Rightarrow> Some ft)"
    by (simp add: find_filter matching_types_def extension_matches_def [abs_def])
  then show ?thesis
    by (simp add: sniff_file_type_def split: sum.splits list.splits)
qed

lemma validate_by_stages:
  "validate_profile_image f ct =
     (case check_file_size f of Inl e \<Rightarrow> Inl e | Inr _ \<Rightarrow> sniff_file_type f ct)"
proof (cases "py_str (name f)")
  case (Inl e)
  then show ?thesis
    by (simp add: validate_profile_image_def check_file_size_def sniff_file_type_outcome)
next
  case (Inr s)
  show ?thesis
  proof (cases "matching_types (lower s)")
    case Nil
    with Inr show ?thesis
      by (simp add: validate_profile_image_def check_file_size_def sniff_file_type_outcome)
  next
    case (Cons ft rest)
    then have "ft \<in> set (matching_types (lower s))" by simp
    then have m: "ft \<in> set image_types" by (simp add: matching_types_def)
    from Inr Cons magic_check [OF m, of f] show ?thesis
      by (simp add: validate_profile_image_def check_file_size_def sniff_file_type_outcome)
  qed
qed

subsection \<open>The branches of the view\<close>

lemma post_forbidden:
  "username (user req) \<noteq> u \<and> \<not> is_staff (user req) \<Longrightarrow>
     post lib req u st = (Inr \<lparr>data = PyNone, status = 403\<rparr>, st)"
  by (simp add: post_def HTTP_403_FORBIDDEN_def)

lemma post_no_file:
  "\<not> (username (user req) \<noteq> u \<and> \<not> is_staff (user req)) \<Longrightarrow> FILES req ''file'' = None \<Longrightarrow>
     post lib req u st = (Inr \<lparr>data = PyNone, status = 400\<rparr>, st)"
  by (auto simp: post_def HTTP_400_BAD_REQUEST_def)

lemma post_invalid:
  "\<not> (username (user req) \<noteq> u \<and> \<not> is_staff (user req)) \<Longrightarrow> FILES req ''file'' = Some f \<Longrightarrow>
   validate_profile_image f (content_type f) = Inl (InvalidProfileImage m) \<Longrightarrow>
     post lib req u st =
       (Inr \<lparr>data = PyDict [(''developer_message'', PyStr m), (''user_message'', PyNone)],
             status = 400\<rparr>, st)"
  by (auto simp: post_def HTTP_400_BAD_REQUEST_def)

lemma post_raises:
  "\<not> (username (user req) \<noteq> u \<and> \<not> is_staff (user req)) \<Longrightarrow> FILES req ''file'' = Some f \<Longrightarrow>
   validate_profile_image f (content_type f) = Inl UnicodeEncodeError \<Longrightarrow>
     post lib req u st = (Inl UnicodeEncodeError, st)"
  by (auto simp: post_def)

lemma post_valid:
  "\<not> (username (user req) \<noteq> u \<and> \<not> is_staff (user req)) \<Longrightarrow> FILES req ''file'' = Some f \<Longrightarrow>
   validate_profile_image f (content_type f) = Inr t \<Longrightarrow>
     post lib req u st =
       (case generate_profile_images lib f u st of
          (Inl e, st') \<Rightarrow> (Inl e, st')
        | (Inr ok, st') \<Rightarrow>
            (Inr \<lparr>data = PyDict [(''status'', PyStr ''success'')], status = 200\<rparr>, st'))"
  by (auto simp: post_def HTTP_200_OK_def split: sum.splits prod.splits)

lemma validate_results:
  "(\<exists>t. validate_profile_image f ct = Inr t)
   \<or> (\<exists>m. validate_profile_image f ct = Inl (InvalidProfileImage m))
   \<or> validate_profile_image f ct = Inl UnicodeEncodeError"
  by (simp add: validate_outcome split: sum.splits)

subsection \<open>The example inputs\<close>

lemma example_names:
  "name_profile_image example_lib ''alice'' 30
     = ''6384e2b2184bcbf58eccf10ca7a6563c_profile_30.jpeg''"
  "name_profile_image example_lib ''alice'' 50
     = ''6384e2b2184bcbf58eccf10ca7a6563c_profile_50.jpeg''"
  "name_profile_image example_lib ''alice'' 120
     = ''6384e2b2184bcbf58eccf10ca7a6563c_profile_120.jpeg''"
  "name_profile_image example_lib ''alice'' 500
     = ''6384e2b2184bcbf58eccf10ca7a6563c_profile_500.jpeg''"
  using str_int_sides by (simp_all add: name_profile_image_def example_lib_def)

lemma example_files:
  "FILES (example_request f) ''file'' = Some f"
  "username (user (example_request f)) = ''alice''"
  "is_staff (user (example_request f)) = False"
  by (simp_all add: example_request_def)

lemma example_validations:
  "validate_profile_image example_upload (content_type example_upload) = Inr ''png''"
  "validate_profile_image junk_upload (content_type junk_upload) = Inr ''jpeg''"
  "validate_profile_image tiny_bmp (content_type tiny_bmp)
     = Inl (InvalidProfileImage ''Minimum file size not met.'')"
  "validate_profile_image gif_upload (content_type gif_upload) = Inr ''gif''"
  by code_simp+

lemma example_images:
  "Image_open example_lib example_upload
     = Inr \<lparr>width = 8, height = 6, mode = ''RGB'', pixels = Opened png_bytes\<rparr>"
  "Image_open example_lib gif_upload
     = Inr \<lparr>width = 1, height = 1, mode = ''P'', pixels = Opened gif_bytes\<rparr>"
  "Image_open example_lib junk_upload = Inl IOError"
  "image_loads example_lib (contents example_upload)"
  "image_loads example_lib (contents gif_upload)"
  "''RGB'' \<in> set (jpeg_modes example_lib)"
  "''P'' \<notin> set (jpeg_modes example_lib)"
  by code_simp+

subsection \<open>What validation accepts\<close>

text \<open>
  What validation accepts: it returns a file type exactly when the size is in range, the
  name is converted by \<open>str\<close>, and the table entry of that type matches the extension
  of the lower-cased name, lists the supplied content type and has a magic string that the
  leading bytes of the file hex-encode to. The type it returns is 'gif', 'jpeg' or 'png'.
\<close>

lemma validate_accepts_iff:
  "(validate_profile_image f ct = Inr t) =
     (100 \<le> size_bytes f \<and> size_bytes f \<le> 1048576 \<and>
      (\<exists>s. py_str (name f) = Inr s \<and>
         (\<exists>ft \<in> set image_types. fst ft = t \<and> extension_matches (lower s) (snd ft) \<and>
            ct \<in> set (mimetypes (snd ft)) \<and> magic_matches f (snd ft))))"
proof (cases "100 \<le> size_bytes f \<and> size_bytes f \<le> 1048576")
  case False
  then show ?thesis
    by (auto simp: validate_outcome)
next
  case range: True
  show ?thesis
  proof (cases "py_str (name f)")
    case (Inl e)
    with range show ?thesis by (simp add: validate_outcome)
  next
    case (Inr s)
    show ?thesis
    proof (cases "\<exists>ft \<in> set image_types. extension_matches (lower s) (snd ft)")
      case False
      with range Inr show ?thesis by (auto simp: validate_outcome)
    next
      case True
      then obtain ft where ft: "ft \<in> set image_types" "extension_matches (lower s) (snd ft)"
        by blast
      have a: "\<And>P. (\<exists>g \<in> set image_types. extension_matches (lower s) (snd g) \<and> P g) = P ft"
        using ft by (blast dest: matching_same)
      have a': "\<And>P. (\<exists>g \<in> set image_types. fst g = t \<and> extension_matches (lower s) (snd g) \<and> P g)
                = (fst ft = t \<and> P ft)"
        using ft by (blast dest: matching_same)
      have b: "(\<exists>g \<in> set image_types. extension_matches (lower s) (snd g))"
        using ft by blast
      have m: "matching_types (lower s) = [ft]" using ft by (rule matching_unique)
      from range Inr ft show ?thesis
        by (auto simp: validate_outcome a a' b m)
    qed
  qed
qed

lemma validate_type_name:
  "validate_profile_image f ct = Inr t \<Longrightarrow> t \<in> {''gif'', ''jpeg'', ''png''}"
  by (auto simp: validate_accepts_iff image_types_def)

subsection \<open>The outcomes of creating an order\<close>

text \<open>
  The outcomes of \<open>create_order\<close>: a body that is not valid JSON is logged and
  \<open>JSONDecodeError\<close> raised again; with status 200 the decoded body is returned; with
  another status and a JSON object for a body, the error is logged and \<open>None\<close>
  returned; with another status and any other JSON value for a body, \<open>data.get\<close> raises
  \<open>AttributeError\<close> before anything is logged. The decoded body is returned only with
  status 200.
\<close>

lemma create_order_cases:
  "json resp = None \<Longrightarrow>
     create_order resp log
       = (Inl JSONDecodeError, log @ [(''E-Commerce API response is not valid JSON.'', [])])"
  "json resp = Some d \<Longrightarrow> status_code resp = 200 \<Longrightarrow> create_order resp log = (Inr d, log)"
  "json resp = Some (PyDict items) \<Longrightarrow> status_code resp \<noteq> 200 \<Longrightarrow>
     create_order resp log
       = (Inr PyNone,
          log @ [(''Response from E-Commerce API was invalid: (%(status)d) - %(msg)s'',
                  [(''status'', PyInt (status_code resp)),
                   (''msg'', dict_get items ''user_message'')])])"
  "json resp = Some d \<Longrightarrow> status_code resp \<noteq> 200 \<Longrightarrow> (\<forall>items. d \<noteq> PyDict items) \<Longrightarrow>
     create_order resp log = (Inl AttributeError, log)"
  by (auto simp: create_order_def HTTP_200_OK_def split: pyval.splits)

lemma create_order_returns_body_only_on_200:
  "create_order resp log = (Inr d, log') \<Longrightarrow> json resp = Some d \<Longrightarrow> status_code resp = 200"
  by (auto simp: create_order_def HTTP_200_OK_def split: pyval.splits if_splits)

subsection \<open>The messages of the table checks\<close>

text \<open>
  For a file whose size is in range and whose name \<open>str\<close> converts, each of the three
  messages of the table checks is raised exactly when its check is the first that fails.
\<close>

lemma table_check_messages:
  "((validate_profile_image f ct = Inl (InvalidProfileImage ''Unsupported file type.'')) =
      (100 \<le> size_bytes f \<and> size_bytes f \<le> 1048576 \<and>
       (\<exists>s. py_str (name f) = Inr s \<and>
          \<not> (\<exists>ft \<in> set image_types. extension_matches (lower s) (snd ft)))))
   \<and> ((validate_profile_image f ct =
          Inl (InvalidProfileImage ''Content-Type header does not match data.'')) =
      (100 \<le> size_bytes f \<and> size_bytes f \<le> 1048576 \<and>
       (\<exists>s. py_str (name f) = Inr s \<and>
          (\<exists>ft \<in> set image_types. extension_matches (lower s) (snd ft) \<and>
             ct \<notin> set (mimetypes (snd ft))))))
   \<and> ((validate_profile_image f ct =
          Inl (InvalidProfileImage ''File extension does not match data.'')) =
      (100 \<le> size_bytes f \<and> size_bytes f \<le> 1048576 \<and>
       (\<exists>s. py_str (name f) = Inr s \<and>
          (\<exists>ft \<in> set image_types. extension_matches (lower s) (snd ft) \<and>
             ct \<in> set (mimetypes (snd ft)) \<and> \<not> magic_matches f (snd ft)))))"
proof (cases "100 \<le> size_bytes f \<and> size_bytes f \<le> 1048576")
  case False
  then show ?thesis
    by (auto simp: validate_outcome validate_consts)
next
  case range: True
  show ?thesis
  proof (cases "py_str (name f)")
    case (Inl e)
    with range show ?thesis by (simp add: validate_outcome)
  next
    case (Inr s)
    show ?thesis
    proof (cases "\<exists>ft \<in> set image_types. extension_matches (lower s) (snd ft)")
      case False
      with range Inr show ?thesis by (simp add: validate_outcome validate_consts)
    next
      case True
      then obtain ft where ft: "ft \<in> set image_types" "extension_matches (lower s) (snd ft)"
        by blast
      have a: "\<And>P. (\<exists>g \<in> set image_types. extension_matches (lower s) (snd g) \<and> P g) = P ft"
        using ft by (blast dest: matching_same)
      have b: "(\<exists>g \<in> set image_types. extension_matches (lower s) (snd g))"
        using ft by blast
      from range Inr show ?thesis
        by (simp add: validate_outcome validate_consts a b)
    qed
  qed
qed

subsection \<open>The examples in the view's pipeline\<close>

lemma example_generate:
  "generate_profile_images example_lib example_upload ''alice'' Map.empty
     = (Inr (),
        [name_profile_image example_lib ''alice'' 30 \<mapsto>
           thumbnail (center_crop
             \<lparr>width = 8, height = 6, mode = ''RGB'', pixels = Opened png_bytes\<rparr>) 30,
         name_profile_image example_lib ''alice'' 50 \<mapsto>
           thumbnail (center_crop
             \<lparr>width = 8, height = 6, mode = ''RGB'', pixels = Opened png_bytes\<rparr>) 50,
         name_profile_image example_lib ''alice'' 120 \<mapsto>
           thumbnail (center_crop
             \<lparr>width = 8, height = 6, mode = ''RGB'', pixels = Opened png_bytes\<rparr>) 120,
         name_profile_image example_lib ''alice'' 500 \<mapsto>
           thumbnail (center_crop
             \<lparr>width = 8, height = 6, mode = ''RGB'', pixels = Opened png_bytes\<rparr>) 500])"
  "generate_profile_images example_lib gif_upload ''alice'' Map.empty = (Inl IOError, Map.empty)"
  "generate_profile_images example_lib junk_upload ''alice'' Map.empty = (Inl IOError, Map.empty)"
  using example_images by (simp_all add: generate_outcome)

section \<open>Size limits\<close>

text \<open>
  Claim C5. \<open>validate_profile_image\<close> raises \<open>InvalidProfileImage\<close> with the message
  'Maximum file size exceeded.' exactly when the file's size is greater than 1048576
  bytes, and with the message 'Minimum file size not met.' exactly when the size is less
  than 100 bytes; a file of exactly 100 or exactly 1048576 bytes is rejected with neither
  message.
\<close>

theorem size_check_messages:
  "((validate_profile_image f ct = Inl (InvalidProfileImage ''Maximum file size exceeded.''))
     = (size_bytes f > 1048576))
   \<and> ((validate_profile_image f ct = Inl (InvalidProfileImage ''Minimum file size not met.''))
     = (size_bytes f < 100))
   \<and> (size_bytes f = 100 \<or> size_bytes f = 1048576 \<longrightarrow>
        validate_profile_image f ct \<noteq> Inl (InvalidProfileImage ''Maximum file size exceeded.'')
      \<and> validate_profile_image f ct \<noteq> Inl (InvalidProfileImage ''Minimum file size not met.''))"
  by (auto simp: validate_profile_image_def validate_consts
      dest: py_str_error split: sum.splits list.splits if_splits)

theorem size_check_messages_witness:
  "validate_profile_image
     \<lparr>name = Str ''a.png'', size_bytes = 1048577, content_type = ''image/png'', contents = []\<rparr>
     ''image/png'' = Inl (InvalidProfileImage ''Maximum file size exceeded.'')
   \<and> validate_profile_image
     \<lparr>name = Str ''a.png'', size_bytes = 99, content_type = ''image/png'', contents = []\<rparr>
     ''image/png'' = Inl (InvalidProfileImage ''Minimum file size not met.'')
   \<and> validate_profile_image
     \<lparr>name = Str ''a.png'', size_bytes = 100, content_type = ''image/png'', contents = []\<rparr>
     ''image/png'' \<noteq> Inl (InvalidProfileImage ''Minimum file size not met.'')
   \<and> validate_profile_image
     \<lparr>name = Str ''a.png'', size_bytes = 1048576, content_type = ''image/png'', contents = []\<rparr>
     ''image/png'' \<noteq> Inl (InvalidProfileImage ''Maximum file size exceeded.'')"
  using size_check_messages
          [of "\<lparr>name = Str ''a.png'', size_bytes = 1048577, content_type = ''image/png'',
                contents = []\<rparr>" "''image/png''"]
        size_check_messages
          [of "\<lparr>name = Str ''a.png'', size_bytes = 99, content_type = ''image/png'',
                contents = []\<rparr>" "''image/png''"]
        size_check_messages
          [of "\<lparr>name = Str ''a.png'', size_bytes = 100, content_type = ''image/png'',
                contents = []\<rparr>" "''image/png''"]
        size_check_messages
          [of "\<lparr>name = Str ''a.png'', size_bytes = 1048576, content_type = ''image/png'',
                contents = []\<rparr>" "''image/png''"]
  by simp

section \<open>The extension check under a file name outside ASCII\<close>

text \<open>
  Claim C7 at the upload \<open>cafe_bmp\<close>: a file of 100 bytes sent under the \<open>unicode\<close>
  name \<open>u'caf\xe9.bmp'\<close>. No table entry matches its extension, and the claim has the
  function raise \<open>InvalidProfileImage\<close> with 'Unsupported file type.'; the conversion
  \<open>str(image_file.name)\<close> raises \<open>UnicodeEncodeError\<close> before the extension is looked
  at. Under the name \<open>u'cafe.bmp'\<close> the same file is rejected with that message.
\<close>

theorem validate_profile_image_unicode_bmp:
  "validate_profile_image cafe_bmp ''image/bmp'' = Inl UnicodeEncodeError
   \<and> validate_profile_image (cafe_bmp\<lparr>name := Unicode [99, 97, 102, 101, 46, 98, 109, 112]\<rparr>)
        ''image/bmp'' = Inl (InvalidProfileImage ''Unsupported file type.'')"
  by code_simp

section \<open>The four thumbnails\<close>

text \<open>
  Claim C2 says that every valid upload gets its four thumbnails. Validation looks at the
  name, the content type and the first bytes only, and two uploads that pass it get none:
  \<open>junk_upload\<close>, in which \<open>Image.open\<close> identifies no image, and \<open>gif_upload\<close>, a GIF
  picture that \<open>Image.open\<close> reads in palette mode, which the JPEG writer refuses. In
  both cases \<open>generate_profile_images\<close> raises \<open>IOError\<close> and stores nothing.
\<close>

theorem four_thumbnails_counterexample:
  "validate_profile_image junk_upload (content_type junk_upload) = Inr ''jpeg''
   \<and> generate_profile_images example_lib junk_upload ''alice'' Map.empty
       = (Inl IOError, Map.empty)
   \<and> validate_profile_image gif_upload (content_type gif_upload) = Inr ''gif''
   \<and> Image_open example_lib gif_upload
       = Inr \<lparr>width = 1, height = 1, mode = ''P'', pixels = Opened gif_bytes\<rparr>
   \<and> generate_profile_images example_lib gif_upload ''alice'' Map.empty
       = (Inl IOError, Map.empty)"
  using example_validations(2,4) example_images(2) example_generate(2,3) by simp

text \<open>
  Claim C2, amended. For every upload in which \<open>Image.open\<close> reads an image whose pixel
  data loads and whose mode the JPEG writer accepts, \<open>generate_profile_images\<close> stores
  exactly four thumbnails for the user: one under the name of each of the sides 30, 50,
  120 and 500, the four names being different, each the JPEG of the center-cropped image
  scaled to a square of \<open>side\<close> by \<open>side\<close> pixels; every other file of the storage is
  left as it was.
\<close>

theorem generate_profile_images_four_thumbnails:
  assumes "Image_open lib f = Inr img"
    and "image_loads lib (contents f)"
    and "mode img \<in> set (jpeg_modes lib)"
  shows "\<exists>st'. generate_profile_images lib f u st = (Inr (), st')
      \<and> (\<forall>side \<in> set [30, 50, 120, 500].
            st' (name_profile_image lib u side)
              = Some (Jpeg \<lparr>width = side, height = side, mode = mode img,
                            pixels = Resized (pixels (center_crop img)) side side\<rparr>))
      \<and> (\<forall>n. n \<notin> set (map (name_profile_image lib u) [30, 50, 120, 500]) \<longrightarrow> st' n = st n)
      \<and> distinct (map (name_profile_image lib u) [30, 50, 120, 500])"
  using names_distinct [of lib u] assms
  by (simp add: generate_outcome thumbnail_def center_crop_keeps)

theorem generate_profile_images_four_thumbnails_witness:
  "\<exists>st'. generate_profile_images example_lib example_upload ''alice'' Map.empty = (Inr (), st')
      \<and> st' ''6384e2b2184bcbf58eccf10ca7a6563c_profile_30.jpeg''
          = Some (Jpeg \<lparr>width = 30, height = 30, mode = ''RGB'',
                        pixels = Resized (Cropped (Opened png_bytes) 1 0 7 6) 30 30\<rparr>)
      \<and> st' ''6384e2b2184bcbf58eccf10ca7a6563c_profile_500.jpeg''
          = Some (Jpeg \<lparr>width = 500, height = 500, mode = ''RGB'',
                        pixels = Resized (Cropped (Opened png_bytes) 1 0 7 6) 500 500\<rparr>)
      \<and> st' ''other.jpeg'' = None"
proof -
  have m: "mode \<lparr>width = 8, height = 6, mode = ''RGB'', pixels = Opened png_bytes\<rparr>
             \<in> set (jpeg_modes example_lib)"
    using example_images(6) by simp
  have k: "pixels (center_crop \<lparr>width = 8, height = 6, mode = ''RGB'', pixels = Opened png_bytes\<rparr>)
             = Cropped (Opened png_bytes) 1 0 7 6"
    by (simp add: center_crop_def crop_def Let_def)
  from generate_profile_images_four_thumbnails
         [OF example_images(1) example_images(4) m, of "''alice''" Map.empty]
  obtain st' where g: "generate_profile_images example_lib example_upload ''alice'' Map.empty
                         = (Inr (), st')"
    and a: "st' ''6384e2b2184bcbf58eccf10ca7a6563c_profile_30.jpeg''
          = Some (Jpeg \<lparr>width = 30, height = 30, mode = ''RGB'',
                        pixels = Resized (Cropped (Opened png_bytes) 1 0 7 6) 30 30\<rparr>)"
    and b: "st' ''6384e2b2184bcbf58eccf10ca7a6563c_profile_500.jpeg''
          = Some (Jpeg \<lparr>width = 500, height = 500, mode = ''RGB'',
                        pixels = Resized (Cropped (Opened png_bytes) 1 0 7 6) 500 500\<rparr>)"
    and c: "\<forall>n. n \<notin> set (map (name_profile_image example_lib ''alice'') [30, 50, 120, 500])
                \<longrightarrow> st' n = Map.empty n"
    by (auto simp: example_names k)
  from c have "st' ''other.jpeg'' = None" by (simp add: example_names)
  with g a b show ?thesis by blast
qed

section \<open>The center crop\<close>

text \<open>
  Claim C3. For an image whose width differs from its height,
  \<open>generate_profile_images\<close> first crops it to the box \<open>((width - side) / 2,
  (height - side) / 2, (width + side) / 2, (height + side) / 2)\<close>, where \<open>side\<close> is the
  smaller of width and height and the division is integer division. The box spans exactly
  \<open>side\<close> pixels in each dimension, lies inside the image and is centered: the margins on
  the two sides of it differ by at most the one pixel that integer division leaves over.
  An image that is already square is not cropped. Whenever \<open>generate_profile_images\<close>
  returns, the thumbnail it has stored for each side is the scaled image of this crop of
  the image that \<open>Image.open\<close> read.
\<close>

theorem center_crop_square:
  "(width img \<noteq> height img \<longrightarrow>
      (let side = min (width img) (height img);
           x0 = (width img - side) div 2; y0 = (height img - side) div 2;
           x1 = (width img + side) div 2; y1 = (height img + side) div 2
       in center_crop img = \<lparr>width = side, height = side, mode = mode img,
                              pixels = Cropped (pixels img) x0 y0 x1 y1\<rparr>
          \<and> x1 - x0 = side \<and> y1 - y0 = side
          \<and> 0 \<le> x0 \<and> x1 \<le> width img \<and> 0 \<le> y0 \<and> y1 \<le> height img
          \<and> x0 \<le> width img - x1 \<and> width img - x1 \<le> x0 + 1
          \<and> y0 \<le> height img - y1 \<and> height img - y1 \<le> y0 + 1))
   \<and> (width img = height img \<longrightarrow> center_crop img = img)
   \<and> (Image_open lib f = Inr opened \<and> generate_profile_images lib f u st = (Inr (), st') \<longrightarrow>
        (\<forall>side \<in> set [30, 50, 120, 500].
           st' (name_profile_image lib u side)
             = Some (Jpeg \<lparr>width = side, height = side, mode = mode opened,
                           pixels = Resized (pixels (center_crop opened)) side side\<rparr>)))"
proof -
  have 1: "width img \<noteq> height img \<longrightarrow>
      (let side = min (width img) (height img);
           x0 = (width img - side) div 2; y0 = (height img - side) div 2;
           x1 = (width img + side) div 2; y1 = (height img + side) div 2
       in center_crop img = \<lparr>width = side, height = side, mode = mode img,
                              pixels = Cropped (pixels img) x0 y0 x1 y1\<rparr>
          \<and> x1 - x0 = side \<and> y1 - y0 = side
          \<and> 0 \<le> x0 \<and> x1 \<le> width img \<and> 0 \<le> y0 \<and> y1 \<le> height img
          \<and> x0 \<le> width img - x1 \<and> width img - x1 \<le> x0 + 1
          \<and> y0 \<le> height img - y1 \<and> height img - y1 \<le> y0 + 1)"
    by (auto simp: center_crop_def crop_def Let_def min_def)
  have 2: "width img = height img \<longrightarrow> center_crop img = img"
    by (simp add: center_crop_def)
  have 3: "Image_open lib f = Inr opened \<and> generate_profile_images lib f u st = (Inr (), st') \<longrightarrow>
        (\<forall>side \<in> set [30, 50, 120, 500].
           st' (name_profile_image lib u side)
             = Some (Jpeg \<lparr>width = side, height = side, mode = mode opened,
                           pixels = Resized (pixels (center_crop opened)) side side\<rparr>))"
    using names_distinct [of lib u]
    by (auto simp: generate_outcome thumbnail_def center_crop_keeps split: if_splits)
  from 1 2 3 show ?thesis by blast
qed

theorem center_crop_square_witness:
  "center_crop \<lparr>width = 1000, height = 999, mode = ''RGB'', pixels = Opened ''x''\<rparr>
     = \<lparr>width = 999, height = 999, mode = ''RGB'', pixels = Cropped (Opened ''x'') 0 0 999 999\<rparr>
   \<and> center_crop \<lparr>width = 100, height = 100, mode = ''RGB'', pixels = Opened ''x''\<rparr>
     = \<lparr>width = 100, height = 100, mode = ''RGB'', pixels = Opened ''x''\<rparr>
   \<and> (\<exists>st'. generate_profile_images example_lib example_upload ''alice'' Map.empty
               = (Inr (), st')
        \<and> st' ''6384e2b2184bcbf58eccf10ca7a6563c_profile_30.jpeg''
            = Some (Jpeg \<lparr>width = 30, height = 30, mode = ''RGB'',
                          pixels = Resized (Cropped (Opened png_bytes) 1 0 7 6) 30 30\<rparr>))"
proof -
  have a: "center_crop \<lparr>width = 1000, height = 999, mode = ''RGB'', pixels = Opened ''x''\<rparr>
     = \<lparr>width = 999, height = 999, mode = ''RGB'', pixels = Cropped (Opened ''x'') 0 0 999 999\<rparr>"
    using center_crop_square
            [of "\<lparr>width = 1000, height = 999, mode = ''RGB'', pixels = Opened ''x''\<rparr>"]
    by (simp add: Let_def)
  have b: "center_crop \<lparr>width = 100, height = 100, mode = ''RGB'', pixels = Opened ''x''\<rparr>
     = \<lparr>width = 100, height = 100, mode = ''RGB'', pixels = Opened ''x''\<rparr>"
    using center_crop_square
            [of "\<lparr>width = 100, height = 100, mode = ''RGB'', pixels = Opened ''x''\<rparr>"]
    by simp
  have k: "center_crop \<lparr>width = 8, height = 6, mode = ''RGB'', pixels = Opened png_bytes\<rparr>
     = \<lparr>width = 6, height = 6, mode = ''RGB'', pixels = Cropped (Opened png_bytes) 1 0 7 6\<rparr>"
    using center_crop_square
            [of "\<lparr>width = 8, height = 6, mode = ''RGB'', pixels = Opened png_bytes\<rparr>"]
    by (simp add: Let_def)
  obtain st' where g: "generate_profile_images example_lib example_upload ''alice'' Map.empty
                         = (Inr (), st')"
    using example_generate(1) by blast
  from example_images(1) g center_crop_square
            [of "\<lparr>width = 100, height = 100, mode = ''RGB'', pixels = Opened ''x''\<rparr>"
                example_lib example_upload
                "\<lparr>width = 8, height = 6, mode = ''RGB'', pixels = Opened png_bytes\<rparr>"
                "''alice''" Map.empty st']
  have "st' ''6384e2b2184bcbf58eccf10ca7a6563c_profile_30.jpeg''
            = Some (Jpeg \<lparr>width = 30, height = 30, mode = ''RGB'',
                          pixels = Resized (Cropped (Opened png_bytes) 1 0 7 6) 30 30\<rparr>)"
    by (simp add: example_names k)
  with a b g show ?thesis by blast
qed

section \<open>Names and replacement in the storage\<close>

text \<open>
  Claim C9. The name of a stored profile image is the MD5 hex digest of the username
  followed by '_profile_', the side and '.jpeg'. \<open>store_profile_image\<close> deletes an
  existing file of that name before it saves, so the name is free when \<open>save\<close> is
  called and the image is stored under exactly that name: the storage holds one file for
  the username and side, a second upload replaces the image of the first, and the set of
  stored names does not grow.
\<close>

theorem store_profile_image_replaces:
  "name_profile_image lib u side = md5_hexdigest lib u @ ''_profile_'' @ str_int side @ ''.jpeg''
   \<and> \<not> storage_exists
         (if storage_exists st (name_profile_image lib u side)
          then storage_delete st (name_profile_image lib u side) else st)
         (name_profile_image lib u side)
   \<and> store_profile_image lib c side u st
       = (name_profile_image lib u side, st(name_profile_image lib u side \<mapsto> c))
   \<and> store_profile_image lib c2 side u (snd (store_profile_image lib c1 side u st))
       = (name_profile_image lib u side, st(name_profile_image lib u side \<mapsto> c2))
   \<and> dom (snd (store_profile_image lib c2 side u (snd (store_profile_image lib c1 side u st))))
       = dom (snd (store_profile_image lib c1 side u st))"
  by (simp add: store_profile_image_result name_profile_image_def storage_exists_def
      storage_delete_def)


theorem store_profile_image_replaces_witness:
  "store_profile_image example_lib (Jpeg \<lparr>width = 30, height = 30, mode = ''RGB'', pixels = Opened ''b''\<rparr>)
     30 ''alice''
     (snd (store_profile_image example_lib
             (Jpeg \<lparr>width = 30, height = 30, mode = ''RGB'', pixels = Opened ''a''\<rparr>) 30 ''alice'' Map.empty))
   = (''6384e2b2184bcbf58eccf10ca7a6563c_profile_30.jpeg'',
      [''6384e2b2184bcbf58eccf10ca7a6563c_profile_30.jpeg'' \<mapsto>
         Jpeg \<lparr>width = 30, height = 30, mode = ''RGB'', pixels = Opened ''b''\<rparr>])"
  using store_profile_image_replaces
          [of example_lib "''alice''" 30 Map.empty
              "Jpeg \<lparr>width = 30, height = 30, mode = ''RGB'', pixels = Opened ''b''\<rparr>"
              "Jpeg \<lparr>width = 30, height = 30, mode = ''RGB'', pixels = Opened ''b''\<rparr>"
              "Jpeg \<lparr>width = 30, height = 30, mode = ''RGB'', pixels = Opened ''a''\<rparr>"]
  by (simp add: example_names)

section \<open>A validation error stores nothing\<close>

text \<open>
  Claim C8. If \<open>validate_profile_image\<close> raises \<open>InvalidProfileImage\<close> for the
  uploaded file, \<open>post\<close> answers without calling \<open>generate_profile_images\<close> or
  \<open>store_profile_image\<close>: the storage after the call is the storage before it, the
  view responds (with status 400, or 403 when the requester may not upload for the user),
  and the outcome does not depend on the imaging and storage libraries.
\<close>

theorem validation_error_leaves_storage:
  assumes "FILES req ''file'' = Some f"
    and "validate_profile_image f (content_type f) = Inl (InvalidProfileImage m)"
  shows "snd (post lib req u st) = st
     \<and> (\<exists>r. fst (post lib req u st) = Inr r \<and> (status r = 400 \<or> status r = 403))
     \<and> post lib' req u st = post lib req u st"
  using assms
  by (cases "username (user req) \<noteq> u \<and> \<not> is_staff (user req)")
     (simp_all add: post_forbidden post_invalid)

theorem validation_error_leaves_storage_witness:
  "snd (post example_lib (example_request tiny_bmp) ''alice'' Map.empty) = Map.empty
   \<and> (\<exists>r. fst (post example_lib (example_request tiny_bmp) ''alice'' Map.empty) = Inr r
          \<and> (status r = 400 \<or> status r = 403))"
  using validation_error_leaves_storage
          [OF example_files(1) example_validations(3), of example_lib "''alice''" Map.empty]
  by simp

section \<open>The responses of the upload view\<close>

text \<open>
  Claim C6 says that \<open>post\<close> answers 403, 400 or, in every other case, success. It does
  not in every other case: validation looks at the first bytes only, and for a file that
  passes it and in which \<open>Image.open\<close> identifies no image, the \<open>IOError\<close> of
  \<open>Image.open\<close> leaves the view and no response is made.
\<close>

theorem post_responses_counterexample:
  "username (user (example_request junk_upload)) = ''alice''
   \<and> FILES (example_request junk_upload) ''file'' = Some junk_upload
   \<and> validate_profile_image junk_upload (content_type junk_upload) = Inr ''jpeg''
   \<and> post example_lib (example_request junk_upload) ''alice'' Map.empty
       = (Inl IOError, Map.empty)"
  using example_validations(2) example_generate(3)
  by (simp add: example_files post_valid)

text \<open>
  Claim C6, amended. \<open>post\<close> responds with status 403 exactly when the requester's
  username differs from the target username and the requester is not staff. Otherwise it
  responds with status 400 exactly when the request carries no 'file' or validation raises
  \<open>InvalidProfileImage\<close>, in the latter case with a body whose developer_message is the
  exception's message and whose user_message is null. Otherwise, when validation returns a
  file type: if \<open>Image.open\<close> reads an image in the file, its pixel data loads and the
  JPEG writer accepts its mode, \<open>post\<close> responds with status 200 and the body
  \<open>{"status": "success"}\<close>; if \<open>Image.open\<close> identifies no image in the file or its
  pixel data does not load, the \<open>IOError\<close> of the imaging library leaves the view.
\<close>

theorem post_responses:
  "((\<exists>r. fst (post lib req u st) = Inr r \<and> status r = 403)
      = (username (user req) \<noteq> u \<and> \<not> is_staff (user req)))
   \<and> (\<not> (username (user req) \<noteq> u \<and> \<not> is_staff (user req)) \<longrightarrow>
        ((\<exists>r. fst (post lib req u st) = Inr r \<and> status r = 400)
           = (FILES req ''file'' = None
              \<or> (\<exists>f m. FILES req ''file'' = Some f
                    \<and> validate_profile_image f (content_type f) = Inl (InvalidProfileImage m))))
      \<and> (\<forall>f m. FILES req ''file'' = Some f
               \<and> validate_profile_image f (content_type f) = Inl (InvalidProfileImage m) \<longrightarrow>
             fst (post lib req u st)
               = Inr \<lparr>data = PyDict [(''developer_message'', PyStr m), (''user_message'', PyNone)],
                      status = 400\<rparr>)
      \<and> (\<forall>f t. FILES req ''file'' = Some f
               \<and> validate_profile_image f (content_type f) = Inr t \<longrightarrow>
             (image_header lib (contents f) = None \<or> \<not> image_loads lib (contents f) \<longrightarrow>
                fst (post lib req u st) = Inl IOError)
           \<and> (\<forall>w h m. image_header lib (contents f) = Some (w, h, m)
                   \<and> image_loads lib (contents f) \<and> m \<in> set (jpeg_modes lib) \<longrightarrow>
                fst (post lib req u st)
                  = Inr \<lparr>data = PyDict [(''status'', PyStr ''success'')], status = 200\<rparr>)))"
proof (cases "username (user req) \<noteq> u \<and> \<not> is_staff (user req)")
  case True
  then show ?thesis by (simp add: post_forbidden)
next
  case auth: False
  show ?thesis
  proof (cases "FILES req ''file''")
    case None
    with auth show ?thesis by (simp add: post_no_file)
  next
    case (Some f)
    from validate_results [of f "content_type f"] show ?thesis
    proof (elim disjE exE)
      fix t assume v: "validate_profile_image f (content_type f) = Inr t"
      have p: "post lib req u st =
         (case generate_profile_images lib f u st of
            (Inl e, st') \<Rightarrow> (Inl e, st')
          | (Inr ok, st') \<Rightarrow>
              (Inr \<lparr>data = PyDict [(''status'', PyStr ''success'')], status = 200\<rparr>, st'))"
        using auth Some v by (rule post_valid)
      have a: "image_header lib (contents f) = None \<or> \<not> image_loads lib (contents f) \<Longrightarrow>
                 fst (post lib req u st) = Inl IOError"
        by (auto simp: p generate_outcome Image_open_def split: option.splits)
      have b: "\<And>w h m. image_header lib (contents f) = Some (w, h, m) \<Longrightarrow>
                 image_loads lib (contents f) \<Longrightarrow> m \<in> set (jpeg_modes lib) \<Longrightarrow>
                 fst (post lib req u st)
                   = Inr \<lparr>data = PyDict [(''status'', PyStr ''success'')], status = 200\<rparr>"
        by (simp add: p generate_outcome Image_open_def)
      have c: "(\<exists>r. fst (post lib req u st) = Inr r \<and> status r = 400) = False"
        "(\<exists>r. fst (post lib req u st) = Inr r \<and> status r = 403) = False"
        by (auto simp: p split: prod.splits sum.splits)
      from auth Some v a b show ?thesis by (simp add: c)
    next
      fix m assume "validate_profile_image f (content_type f) = Inl (InvalidProfileImage m)"
      with auth Some show ?thesis by (simp add: post_invalid)
    next
      assume "validate_profile_image f (content_type f) = Inl UnicodeEncodeError"
      with auth Some show ?thesis by (simp add: post_raises)
    qed
  qed
qed

theorem post_responses_witness:
  "fst (post example_lib (example_request example_upload) ''alice'' Map.empty)
     = Inr \<lparr>data = PyDict [(''status'', PyStr ''success'')], status = 200\<rparr>
   \<and> fst (post example_lib (example_request tiny_bmp) ''alice'' Map.empty)
     = Inr \<lparr>data = PyDict [(''developer_message'', PyStr ''Minimum file size not met.''),
                            (''user_message'', PyNone)], status = 400\<rparr>
   \<and> fst (post example_lib (example_request junk_upload) ''alice'' Map.empty) = Inl IOError
   \<and> (\<exists>r. fst (post example_lib (example_request example_upload) ''bob'' Map.empty) = Inr r
          \<and> status r = 403)"
proof -
  have h: "image_header example_lib (contents example_upload) = Some (8, 6, ''RGB'')"
     "image_header example_lib (contents junk_upload) = None"
    by code_simp+
  show ?thesis
    using post_responses [of example_lib "example_request example_upload" "''alice''" Map.empty]
        post_responses [of example_lib "example_request tiny_bmp" "''alice''" Map.empty]
        post_responses [of example_lib "example_request junk_upload" "''alice''" Map.empty]
        post_responses [of example_lib "example_request example_upload" "''bob''" Map.empty]
        example_validations example_images(4,6) h
    by (simp add: example_files)
qed

section \<open>A file name outside ASCII\<close>

text \<open>
  Claim C1 at the upload \<open>cafe_png\<close>: the PNG picture of 218 bytes, which starts with the
  PNG magic number, sent as image/png under the \<open>unicode\<close> name \<open>u'caf\xe9.png'\<close>. The
  conversion \<open>str(image_file.name)\<close> raises \<open>UnicodeEncodeError\<close>, so the function
  neither returns 'png' nor raises \<open>InvalidProfileImage\<close>; under the name
  \<open>u'cafe.png'\<close> the same file is accepted as 'png'.
\<close>

theorem validate_profile_image_unicode_name:
  "validate_profile_image cafe_png ''image/png'' = Inl UnicodeEncodeError
   \<and> validate_profile_image (cafe_png\<lparr>name := Unicode [99, 97, 102, 101, 46, 112, 110, 103]\<rparr>)
        ''image/png'' = Inr ''png''"
  by code_simp

section \<open>An error response that is not a JSON object\<close>

text \<open>
  Claim C10 at a response with status 400 whose body is the valid JSON text
  \<open>["Invalid SKU"]\<close>: \<open>data.get\<close> is looked up on a list, \<open>AttributeError\<close> is
  raised, and nothing is logged.
\<close>

theorem create_order_non_object_body:
  "create_order \<lparr>status_code = 400, json = Some (PyList [PyStr ''Invalid SKU''])\<rparr> []
     = (Inl AttributeError, [])"
  by (simp add: create_order_def HTTP_200_OK_def)

section \<open>The order of the pipeline\<close>

text \<open>
  Claim C4 says that the pipeline sniffs the file type first and checks the size after.
  The code checks the size first: for \<open>tiny_bmp\<close>, a file of 99 bytes named photo.bmp,
  it reports the size, where sniffing first reports the file type.
\<close>

theorem sniffing_first_counterexample:
  "validate_profile_image tiny_bmp ''image/bmp''
     = Inl (InvalidProfileImage ''Minimum file size not met.'')
   \<and> validate_sniffing_first tiny_bmp ''image/bmp''
     = Inl (InvalidProfileImage ''Unsupported file type.'')"
  by code_simp

text \<open>
  Claim C4, amended. The upload pipeline is a linear sequence in the order: size checks,
  then file-type sniffing (extension, then Content-Type, then magic bytes), then image
  resizing. Validation is the size check followed, when it passes, by the sniffing; and
  the view changes the storage only after both have passed for the uploaded file, the new
  storage being the one \<open>generate_profile_images\<close> returns.
\<close>

theorem size_check_precedes_sniffing:
  "validate_profile_image f ct
     = (case check_file_size f of Inl e \<Rightarrow> Inl e | Inr ok \<Rightarrow> sniff_file_type f ct)
   \<and> (snd (post lib req u st) \<noteq> st \<longrightarrow>
        (\<exists>g t. FILES req ''file'' = Some g
           \<and> check_file_size g = Inr ()
           \<and> sniff_file_type g (content_type g) = Inr t
           \<and> generate_profile_images lib g u st = (Inr (), snd (post lib req u st))))"
proof -
  have 1: "validate_profile_image f ct
     = (case check_file_size f of Inl e \<Rightarrow> Inl e | Inr ok \<Rightarrow> sniff_file_type f ct)"
    by (rule validate_by_stages)
  have 2: "snd (post lib req u st) \<noteq> st \<longrightarrow>
        (\<exists>g t. FILES req ''file'' = Some g
           \<and> check_file_size g = Inr ()
           \<and> sniff_file_type g (content_type g) = Inr t
           \<and> generate_profile_images lib g u st = (Inr (), snd (post lib req u st)))"
  proof
    assume ch: "snd (post lib req u st) \<noteq> st"
    then have auth: "\<not> (username (user req) \<noteq> u \<and> \<not> is_staff (user req))"
      by (auto simp: post_forbidden)
    with ch obtain g where g: "FILES req ''file'' = Some g"
      by (cases "FILES req ''file''") (auto simp: post_no_file)
    from validate_results [of g "content_type g"] ch auth g
    obtain t where v: "validate_profile_image g (content_type g) = Inr t"
      by (auto simp: post_invalid post_raises)
    obtain r st' where gen: "generate_profile_images lib g u st = (r, st')"
      by (cases "generate_profile_images lib g u st")
    with auth g v have s: "snd (post lib req u st) = st'"
      by (simp add: post_valid split: sum.splits)
    have "r = Inr ()"
    proof (cases r)
      case (Inl e)
      with gen have "st' = st" by (simp add: generate_error_unchanged)
      with s ch show ?thesis by simp
    next
      case (Inr ok)
      then show ?thesis by simp
    qed
    with gen s have "generate_profile_images lib g u st = (Inr (), snd (post lib req u st))"
      by simp
    moreover from v have "check_file_size g = Inr () \<and> sniff_file_type g (content_type g) = Inr t"
      by (auto simp: validate_by_stages split: sum.splits)
    ultimately show "\<exists>g t. FILES req ''file'' = Some g
           \<and> check_file_size g = Inr ()
           \<and> sniff_file_type g (content_type g) = Inr t
           \<and> generate_profile_images lib g u st = (Inr (), snd (post lib req u st))"
      using g by blast
  qed
  from 1 2 show ?thesis by blast
qed

theorem size_check_precedes_sniffing_witness:
  "validate_profile_image tiny_bmp ''image/bmp''
     = Inl (InvalidProfileImage ''Minimum file size not met.'')
   \<and> snd (post example_lib (example_request example_upload) ''alice'' Map.empty) \<noteq> Map.empty
   \<and> sniff_file_type example_upload (content_type example_upload) = Inr ''png''"
proof -
  have c: "check_file_size tiny_bmp = Inl (InvalidProfileImage ''Minimum file size not met.'')"
    by code_simp
  have a: "validate_profile_image tiny_bmp ''image/bmp''
     = Inl (InvalidProfileImage ''Minimum file size not met.'')"
    using size_check_precedes_sniffing [of tiny_bmp "''image/bmp''"] c by simp
  have "snd (post example_lib (example_request example_upload) ''alice'' Map.empty)
          (name_profile_image example_lib ''alice'' 500) \<noteq> None"
    using example_validations(1)
    by (simp add: post_valid example_files example_generate(1))
  then have b: "snd (post example_lib (example_request example_upload) ''alice'' Map.empty)
                  \<noteq> Map.empty"
    by auto
  from b size_check_precedes_sniffing
      [of tiny_bmp "''image/bmp''" example_lib "example_request example_upload" "''alice''"
          Map.empty]
  have "sniff_file_type example_upload (content_type example_upload) = Inr ''png''"
    using example_validations(1)
    by (auto simp: example_files validate_by_stages split: sum.splits)
  with a b show ?thesis by blast
qed

end
